theory Spec2Isabelle
  imports Main
begin

section \<open>Python values and their text\<close>

text \<open>
  The values \<^verbatim>\<open>smart_drone_agent.py\<close> builds and prints are \<^verbatim>\<open>None\<close>, booleans,
  integers and strings (the scalars), and lists and dictionaries of values. A dictionary
  keeps its insertion order, so it is an association list; every key of the source is a
  string. A string is its sequence of bytes in UTF-8.
\<close>

datatype scalar =
    SNone
  | SBool bool
  | SInt int
  | SStr string

datatype pyval =
    Scalar scalar
  | PList "pyval list"
  | PDict "(string \<times> pyval) list"

abbreviation PNone :: pyval where "PNone \<equiv> Scalar SNone"
abbreviation PBool :: "bool \<Rightarrow> pyval" where "PBool b \<equiv> Scalar (SBool b)"
abbreviation PInt :: "int \<Rightarrow> pyval" where "PInt i \<equiv> Scalar (SInt i)"
abbreviation PStr :: "string \<Rightarrow> pyval" where "PStr s \<equiv> Scalar (SStr s)"

text \<open>Truth value of a Python object, as read by \<^verbatim>\<open>if\<close>.\<close>

fun truthy :: "pyval \<Rightarrow> bool" where
  "truthy PNone = False"
| "truthy (PBool b) = b"
| "truthy (PInt i) = (i \<noteq> 0)"
| "truthy (PStr s) = (s \<noteq> [])"
| "truthy (PList xs) = (xs \<noteq> [])"
| "truthy (PDict kvs) = (kvs \<noteq> [])"

text \<open>\<^verbatim>\<open>d.get(k)\<close>: the value stored under \<^verbatim>\<open>k\<close>, or \<^verbatim>\<open>None\<close> when the key is absent.\<close>

definition dict_get :: "(string \<times> pyval) list \<Rightarrow> string \<Rightarrow> pyval" where
  "dict_get d k = (case map_of d k of None \<Rightarrow> PNone | Some v \<Rightarrow> v)"

text \<open>\<^verbatim>\<open>sep.join(lines)\<close>.\<close>

fun join :: "string \<Rightarrow> string list \<Rightarrow> string" where
  "join sep [] = []"
| "join sep [x] = x"
| "join sep (x # y # ys) = x @ sep @ join sep (y # ys)"

text \<open>Decimal text of an integer, as \<^verbatim>\<open>str\<close> and an f-string give it.\<close>

fun dec :: "nat \<Rightarrow> string" where
  "dec n = (if n < 10 then [''0123456789'' ! n]
            else dec (n div 10) @ [''0123456789'' ! (n mod 10)])"

declare dec.simps [simp del]

definition str_int :: "int \<Rightarrow> string" where
  "str_int i = (if i < 0 then ''-'' @ dec (nat (- i)) else dec (nat i))"

definition newline :: char where "newline = CHR 0x0A"

text \<open>
  \<^verbatim>\<open>str\<close> of a scalar, which an f-string applies: a string is itself, \<^verbatim>\<open>None\<close> and the
  booleans are their names, an integer is its decimal text. The text of a list or of a
  dictionary would need \<^verbatim>\<open>repr\<close>, which depends on the Unicode tables; it is not
  modelled, and nothing below needs it.
\<close>

fun py_str :: "scalar \<Rightarrow> string" where
  "py_str SNone = ''None''"
| "py_str (SBool b) = (if b then ''True'' else ''False'')"
| "py_str (SInt i) = str_int i"
| "py_str (SStr s) = s"

section \<open>The YAML writer\<close>

text \<open>
  \<^verbatim>\<open>fmt\<close>, the local function of \<^verbatim>\<open>write_yaml_from_spec\<close>. \<^verbatim>\<open>pad\<close> is two spaces per
  level. In a dictionary an entry whose value is a dictionary or a list gives the line
  \<^verbatim>\<open>key:\<close> and then the value one level deeper; any other entry gives \<^verbatim>\<open>key: value\<close>.
  In a list a dictionary item gives \<^verbatim>\<open>-\<close>, a list item gives \<^verbatim>\<open>- \<close> (with the blank kept),
  each followed by the item one level deeper; any other item gives \<^verbatim>\<open>- item\<close>.
\<close>

definition pad :: "nat \<Rightarrow> string" where
  "pad indent = concat (replicate indent ''  '')"

fun fmt :: "pyval \<Rightarrow> nat \<Rightarrow> string" where
  "fmt (PDict kvs) indent =
     join [newline] (concat (map (\<lambda>kv.
       case snd kv of
         PDict d \<Rightarrow> [pad indent @ fst kv @ '':'', fmt (snd kv) (indent + 1)]
       | PList xs \<Rightarrow> [pad indent @ fst kv @ '':'', fmt (snd kv) (indent + 1)]
       | Scalar v \<Rightarrow> [pad indent @ fst kv @ '': '' @ py_str v]) kvs))"
| "fmt (PList items) indent =
     join [newline] (concat (map (\<lambda>item.
       case item of
         PDict d \<Rightarrow> [pad indent @ ''-'', fmt item (indent + 1)]
       | PList xs \<Rightarrow> [pad indent @ ''- '', fmt item (indent + 1)]
       | Scalar v \<Rightarrow> [pad indent @ ''- '' @ py_str v]) items))"
| "fmt (Scalar v) indent = pad indent @ py_str v"

text \<open>
  What \<^verbatim>\<open>write_yaml_from_spec\<close> touches: the files (a path and its text), the console,
  and the clock. \<^verbatim>\<open>datetime.now().isoformat()\<close> is the argument \<open>now\<close>, the reading of the
  clock in that run. \<^verbatim>\<open>Path.write_text\<close> replaces the file's text or raises
  \<^verbatim>\<open>OSError\<close>; the exception leaves the function before the console message.
\<close>

record world =
  files :: "string \<rightharpoonup> string"
  writable :: "string \<Rightarrow> bool"
  console :: "string list"

datatype error = OSError

definition write_text :: "string \<Rightarrow> string \<Rightarrow> world \<Rightarrow> error + world" where
  "write_text out_path text w =
     (if writable w out_path then Inr (w\<lparr>files := (files w)(out_path \<mapsto> text)\<rparr>)
      else Inl OSError)"

definition write_yaml_from_spec :: "pyval \<Rightarrow> string \<Rightarrow> string \<Rightarrow> world \<Rightarrow> error + world" where
  "write_yaml_from_spec spec out_path now w =
     (let yaml_text = fmt spec 0 in
      case write_text out_path yaml_text w of
        Inl e \<Rightarrow> Inl e
      | Inr w' \<Rightarrow>
          Inr (w'\<lparr>console := console w' @
            [''['' @ now @ ''] Wrote agent YAML spec to: '' @ out_path]\<rparr>))"

section \<open>The simulation stubs\<close>

text \<open>
  A stub prints and returns. Its model is the pair of what it adds to the trace and what
  it returns. The trace holds, in order, every call of a stub with its arguments and
  every line printed. \<open>Print\<close> is a printed line whose text is known. \<open>Print_value\<close> is a
  call \<^verbatim>\<open>print(label, value)\<close>: the line is the label, a blank and \<^verbatim>\<open>str(value)\<close>, and the
  event keeps the value itself. The battery level is an integer, as the one
  \<^verbatim>\<open>simulate_mission\<close> passes.
\<close>

datatype event = Call string "pyval list" | Print string | Print_value string pyval

definition verify_battery_level :: "int \<Rightarrow> event list \<times> bool" where
  "verify_battery_level current_pct =
     (let MIN_REQUIRED = 85 in
      ([Call ''verify_battery_level'' [PInt current_pct],
        Print (''Checking battery: '' @ str_int current_pct @ ''% (required >= ''
               @ str_int MIN_REQUIRED @ ''%)'')],
       current_pct \<ge> MIN_REQUIRED))"

definition run_sensor_health_checks :: "event list \<times> bool" where
  "run_sensor_health_checks =
     ([Call ''run_sensor_health_checks'' [],
       Print ''Running sensor health checks: GPS OK, LiDAR OK, Camera OK, IMU OK, Weather suite OK''],
      True)"

definition compute_optimal_route :: "string \<Rightarrow> string \<Rightarrow> int \<Rightarrow> event list \<times> pyval" where
  "compute_optimal_route origin destination battery_pct =
     ([Call ''compute_optimal_route'' [PStr origin, PStr destination, PInt battery_pct],
       Print (''Computing optimal route from '' @ origin @ '' to '' @ destination
              @ '' (battery '' @ str_int battery_pct @ ''%)'')],
      PDict [(''path'', PList [PStr origin, PStr ''waypoint1'', PStr ''waypoint2'', PStr destination]),
             (''eta_min'', PInt 12)])"

definition perform_takeoff_sequence :: "event list \<times> bool" where
  "perform_takeoff_sequence =
     ([Call ''perform_takeoff_sequence'' [],
       Print ''Performing takeoff sequence: rotors up -> ascending to transit altitude''],
      True)"

text \<open>The line of \<^verbatim>\<open>sensor_fusion_loop\<close> holds three characters outside ASCII (U+00E2,
  U+20AC, U+201D in the source file), here as their UTF-8 bytes.\<close>

definition sensor_fusion_loop :: "event list \<times> (string \<times> pyval) list" where
  "sensor_fusion_loop =
     ([Call ''sensor_fusion_loop'' [],
       Print (''Sensor fusion loop: LiDAR+Camera+GPS+IMU combined ''
              @ [CHR 0xC3, CHR 0xA2, CHR 0xE2, CHR 0x82, CHR 0xAC, CHR 0xE2, CHR 0x80, CHR 0x9D]
              @ '' no immediate hazards detected'')],
      [(''obstacle_detected'', PBool False)])"

definition perform_collision_avoidance :: "event list \<times> bool" where
  "perform_collision_avoidance =
     ([Call ''perform_collision_avoidance'' [],
       Print ''Performing collision avoidance maneuver and re-routing''],
      True)"

definition find_drop_point_and_land :: "event list \<times> bool" where
  "find_drop_point_and_land =
     ([Call ''find_drop_point_and_land'' [],
       Print ''Scanning local area, choosing drop point, descending with ultrasonic/LiDAR assist''],
      True)"

definition actuate_servo_release :: "event list \<times> bool" where
  "actuate_servo_release =
     ([Call ''actuate_servo_release'' [],
       Print ''Actuating servo to release package''],
      True)"

definition post_delivery_upload :: "pyval \<Rightarrow> event list \<times> bool" where
  "post_delivery_upload flight_logs =
     ([Call ''post_delivery_upload'' [flight_logs],
       Print ''Uploading telemetry and delivery proof to Operations Control Center''],
      True)"

definition critic_review_and_learning :: "pyval \<Rightarrow> event list \<times> (string \<times> pyval) list" where
  "critic_review_and_learning flight_logs =
     ([Call ''critic_review_and_learning'' [flight_logs],
       Print ''Operations Control Center AI ingesting logs and generating model updates if needed''],
      [(''kpi_ok'', PBool True)])"

section \<open>The mission\<close>

text \<open>
  The module's docstring asks for the stubs to be replaced by real integrations, and every
  branch of \<^verbatim>\<open>simulate_mission\<close> but one tests what a stub returned. So the body of
  \<^verbatim>\<open>simulate_mission\<close> is modelled with the battery level (the local \<^verbatim>\<open>battery\<close>) and the
  values the called functions return as parameters; each function still adds its own
  events to the trace. \<^verbatim>\<open>verify_battery_level\<close> and \<^verbatim>\<open>compute_optimal_route\<close> are always
  the ones of the source. The results of \<^verbatim>\<open>perform_collision_avoidance\<close>,
  \<^verbatim>\<open>post_delivery_upload\<close> and \<^verbatim>\<open>critic_review_and_learning\<close> are discarded by the source,
  so they are not parameters.
\<close>

record results =
  sensor_health :: bool
  takeoff :: bool
  fusion :: "(string \<times> pyval) list"
  landing :: bool
  release :: bool

definition simulate_mission_with :: "results \<Rightarrow> int \<Rightarrow> event list" where
  "simulate_mission_with r battery =
     (let origin = ''DistributionCenterA'';
          destination = ''Customer_123_MainSt'';
          t1 = [Print ''=== SIMULATING MISSION ===''] @ fst (verify_battery_level battery)
      in
      if \<not> snd (verify_battery_level battery)
      then t1 @ [Print ''Abort: battery insufficient.'']
      else
      let t2 = t1 @ fst run_sensor_health_checks in
      if \<not> sensor_health r
      then t2 @ [Print ''Abort: sensor health failed.'']
      else
      let route = snd (compute_optimal_route origin destination battery);
          t3 = t2 @ fst (compute_optimal_route origin destination battery)
                  @ [Print_value ''Planned route:'' route];
          t4 = t3 @ fst perform_takeoff_sequence
      in
      if \<not> takeoff r
      then t4 @ [Print ''Abort: takeoff failed.'']
      else
      let t5 = t4 @ fst sensor_fusion_loop;
          t6 = (if truthy (dict_get (fusion r) ''obstacle_detected'')
                then t5 @ fst perform_collision_avoidance else t5);
          t7 = t6 @ fst find_drop_point_and_land
      in
      if \<not> landing r
      then t7 @ [Print ''Abort: landing failed.'']
      else
      let t8 = t7 @ fst actuate_servo_release;
          t9 = t8 @ [Print (if \<not> release r
                            then ''Warning: release failed; marking for manual follow-up.''
                            else ''Package released successfully.'')];
          logs = PDict [(''route'', route), (''battery_end'', PInt (battery - 20)),
                        (''delivered'', PBool True)];
          t10 = t9 @ fst (post_delivery_upload logs) @ fst (critic_review_and_learning logs)
      in t10 @ [Print ''=== MISSION COMPLETE ===''])"

text \<open>The source as it is: every function is the stub, and \<^verbatim>\<open>battery = 92\<close>.\<close>

definition stubs :: results where
  "stubs = \<lparr>sensor_health = snd run_sensor_health_checks,
            takeoff = snd perform_takeoff_sequence,
            fusion = snd sensor_fusion_loop,
            landing = snd find_drop_point_and_land,
            release = snd actuate_servo_release\<rparr>"

definition simulate_mission :: "event list" where
  "simulate_mission = simulate_mission_with stubs 92"

text \<open>
  Reading a trace: the functions called, in order; whether a function was called;
  whether an abort was printed; the log handed to \<^verbatim>\<open>post_delivery_upload\<close>; what reached
  the console. A line \<^verbatim>\<open>print(label, value)\<close> starts with \<^verbatim>\<open>Abort:\<close> exactly when its label
  does: after a label shorter than six characters comes a blank, which \<^verbatim>\<open>Abort:\<close> does not
  hold.
\<close>

fun calls :: "event list \<Rightarrow> string list" where
  "calls [] = []"
| "calls (Call f args # es) = f # calls es"
| "calls (Print l # es) = calls es"
| "calls (Print_value l v # es) = calls es"

definition invoked :: "string \<Rightarrow> event list \<Rightarrow> bool" where
  "invoked f tr = (f \<in> set (calls tr))"

fun is_abort :: "event \<Rightarrow> bool" where
  "is_abort (Print l) = (take 6 l = ''Abort:'')"
| "is_abort (Print_value l v) = (take 6 l = ''Abort:'')"
| "is_abort (Call f args) = False"

definition aborted :: "event list \<Rightarrow> bool" where
  "aborted tr = list_ex is_abort tr"

fun uploaded_logs :: "event list \<Rightarrow> (string \<times> pyval) list" where
  "uploaded_logs [] = []"
| "uploaded_logs (Call f args # es) =
     (if f = ''post_delivery_upload''
      then (case args of [PDict kvs] \<Rightarrow> kvs | _ \<Rightarrow> [])
      else uploaded_logs es)"
| "uploaded_logs (Print l # es) = uploaded_logs es"
| "uploaded_logs (Print_value l v # es) = uploaded_logs es"

fun console_output :: "event list \<Rightarrow> event list" where
  "console_output [] = []"
| "console_output (Call f args # es) = console_output es"
| "console_output (Print l # es) = Print l # console_output es"
| "console_output (Print_value l v # es) = Print_value l v # console_output es"

text \<open>The mission is past the pre-flight checks when the route is computed: that is the
  first statement after the two gates.\<close>

definition leaves_preflight :: "event list \<Rightarrow> bool" where
  "leaves_preflight tr = invoked ''compute_optimal_route'' tr"

text \<open>The functions \<^verbatim>\<open>simulate_mission\<close> calls, in the order of its text.\<close>

definition step_order :: "string list" where
  "step_order =
     [''verify_battery_level'', ''run_sensor_health_checks'', ''compute_optimal_route'',
      ''perform_takeoff_sequence'', ''sensor_fusion_loop'', ''perform_collision_avoidance'',
      ''find_drop_point_and_land'', ''actuate_servo_release'', ''post_delivery_upload'',
      ''critic_review_and_learning'']"

text \<open>A stub run after a trace: the trace it leaves and the value it returns.\<close>

definition run_after :: "event list \<Rightarrow> event list \<times> 'a \<Rightarrow> event list \<times> 'a" where
  "run_after tr m = (tr @ fst m, snd m)"

section \<open>The agent specification\<close>

text \<open>
  Of the dictionary \<^verbatim>\<open>AGENT_SPEC\<close>: the steps of \<^verbatim>\<open>workflow\<close> with the names of their
  actions.
\<close>

definition workflow :: "(string \<times> string list) list" where
  "workflow =
     [(''Pre-flight checks'',
         [''verify_battery_level'', ''run_sensor_health_checks'',
          ''confirm_no_fly_zones_and_permits'', ''download_mission_plan'']),
      (''Route planning & optimization'',
         [''query_real_time_weather'', ''query_airspace_availability'',
          ''compute_optimal_route'', ''select_preferred_drop_point'']),
      (''Takeoff & initial ascent'',
         [''perform_takeoff_sequence'', ''initial_position_hold'', ''broadcast_presence'']),
      (''En-route navigation & perception loop (continuous)'',
         [''sensor_fusion_loop'', ''detect_dynamic_obstacles'',
          ''perform_collision_avoidance'', ''adapt_altitude_and_speed'']),
      (''Approach & drop-off selection (final 50-100 m)'',
         [''local_area_scan'', ''evaluate_crowd_density'', ''pick_drop_point'']),
      (''Landing & package delivery'',
         [''controlled_descent'', ''visual_confirmation'', ''actuate_servo_release'',
          ''post_drop_check'', ''signal_completion'']),
      (''Post-delivery verification & telemetry upload'',
         [''capture_delivery_image_and_metadata'', ''send_telemetry_to_operations'',
          ''update_battery_and_maintenance_status'']),
      (''Return-to-base or proceed to next mission'',
         [''evaluate_battery_and_payload_state'', ''compute_return_or_next_target'',
          ''perform_return_navigation'']),
      (''Charging, diagnostics & maintenance'',
         [''dock_and_initiate_charge'', ''run_full_diagnostics'',
          ''flag_maintenance_issues_to_ops'']),
      (''Critic review & continuous learning loop'',
         [''ingest_flight_logs_and_incident_reports'', ''evaluate_KPIs_against_thresholds'',
          ''generate_training_data_for_navigation_models'',
          ''recommend_software_updates_or_parameter_tuning'',
          ''flag_human_review_for_incidents''])]"

definition actions_of :: "string \<Rightarrow> string list" where
  "actions_of step = (case map_of workflow step of None \<Rightarrow> [] | Some as \<Rightarrow> as)"

section \<open>Facts about the trace of the mission\<close>

lemmas stub_defs =
  run_sensor_health_checks_def compute_optimal_route_def perform_takeoff_sequence_def
  sensor_fusion_loop_def perform_collision_avoidance_def find_drop_point_and_land_def
  actuate_servo_release_def post_delivery_upload_def critic_review_and_learning_def

lemma verify_battery_level_events:
  "fst (verify_battery_level b) =
     [Call ''verify_battery_level'' [PInt b],
      Print (''Checking battery: '' @ str_int b @ ''% (required >= '' @ str_int 85 @ ''%)'')]"
  by (simp add: verify_battery_level_def)

lemma verify_battery_level_result: "snd (verify_battery_level b) = (85 \<le> b)"
  by (simp add: verify_battery_level_def)

lemma calls_append: "calls (xs @ ys) = calls xs @ calls ys"
  by (induction xs rule: calls.induct) simp_all

lemma console_output_append:
  "console_output (xs @ ys) = console_output xs @ console_output ys"
  by (induction xs rule: console_output.induct) simp_all

lemma str_int_85: "str_int 85 = ''85''"
  by (simp add: str_int_def dec.simps)

lemma trace_battery_low:
  assumes "b < 85"
  shows "simulate_mission_with r b =
     [Print ''=== SIMULATING MISSION ==='',
      Call ''verify_battery_level'' [PInt b],
      Print (''Checking battery: '' @ str_int b @ ''% (required >= 85%)''),
      Print ''Abort: battery insufficient.'']"
  using assms
  by (simp add: simulate_mission_with_def Let_def verify_battery_level_events
      verify_battery_level_result str_int_85)

lemma trace_sensor_health_failed:
  assumes "85 \<le> b" and "\<not> sensor_health r"
  shows "simulate_mission_with r b =
     [Print ''=== SIMULATING MISSION ==='',
      Call ''verify_battery_level'' [PInt b],
      Print (''Checking battery: '' @ str_int b @ ''% (required >= 85%)''),
      Call ''run_sensor_health_checks'' [],
      Print ''Running sensor health checks: GPS OK, LiDAR OK, Camera OK, IMU OK, Weather suite OK'',
      Print ''Abort: sensor health failed.'']"
  using assms
  by (simp add: simulate_mission_with_def Let_def verify_battery_level_events
      verify_battery_level_result str_int_85 run_sensor_health_checks_def)

lemma calls_mission:
  "calls (simulate_mission_with r b) =
     (if b < 85 then [''verify_battery_level'']
      else if \<not> sensor_health r
        then [''verify_battery_level'', ''run_sensor_health_checks'']
      else if \<not> takeoff r
        then [''verify_battery_level'', ''run_sensor_health_checks'',
              ''compute_optimal_route'', ''perform_takeoff_sequence'']
      else [''verify_battery_level'', ''run_sensor_health_checks'',
            ''compute_optimal_route'', ''perform_takeoff_sequence'', ''sensor_fusion_loop'']
           @ (if truthy (dict_get (fusion r) ''obstacle_detected'')
              then [''perform_collision_avoidance''] else [])
           @ [''find_drop_point_and_land'']
           @ (if \<not> landing r then []
              else [''actuate_servo_release'', ''post_delivery_upload'',
                    ''critic_review_and_learning'']))"
  by (simp add: simulate_mission_with_def Let_def verify_battery_level_events
      verify_battery_level_result calls_append stub_defs)

lemma aborted_mission:
  "aborted (simulate_mission_with r b) =
     (b < 85 \<or> \<not> sensor_health r \<or> \<not> takeoff r \<or> \<not> landing r)"
  by (simp add: simulate_mission_with_def aborted_def Let_def verify_battery_level_events
      verify_battery_level_result stub_defs)

lemma last_mission:
  "last (simulate_mission_with r b) =
     Print (if b < 85 then ''Abort: battery insufficient.''
            else if \<not> sensor_health r then ''Abort: sensor health failed.''
            else if \<not> takeoff r then ''Abort: takeoff failed.''
            else if \<not> landing r then ''Abort: landing failed.''
            else ''=== MISSION COMPLETE ==='')"
  by (simp add: simulate_mission_with_def Let_def verify_battery_level_result)

lemma leaves_preflight_iff:
  "leaves_preflight (simulate_mission_with r b) = (85 \<le> b \<and> sensor_health r)"
  by (simp add: leaves_preflight_def invoked_def calls_mission)

lemma stubs_fields:
  "sensor_health stubs" "takeoff stubs" "landing stubs" "release stubs"
  "fusion stubs = [(''obstacle_detected'', PBool False)]"
  by (simp_all add: stubs_def stub_defs)

section \<open>The pre-flight gate\<close>

text \<open>
  Claim C2. The pre-flight battery gate is the threshold 85: for every battery level
  \<open>b\<close> the battery check passes exactly when \<open>b \<ge> 85\<close>, and, the sensor health check
  passing, the mission goes on to compute its route exactly when \<open>b \<ge> 85\<close>. At 84 the
  mission aborts before the route is computed, at 85 it goes on.
\<close>

theorem preflight_battery_gate_is_85:
  "(snd (verify_battery_level b) \<longleftrightarrow> 85 \<le> b)
   \<and> (sensor_health r \<longrightarrow> (leaves_preflight (simulate_mission_with r b) \<longleftrightarrow> 85 \<le> b))
   \<and> \<not> snd (verify_battery_level 84)
   \<and> aborted (simulate_mission_with r 84)
   \<and> \<not> leaves_preflight (simulate_mission_with r 84)
   \<and> snd (verify_battery_level 85)
   \<and> (sensor_health r \<longrightarrow> leaves_preflight (simulate_mission_with r 85)
                          \<and> last (simulate_mission_with r 85) \<noteq> Print ''Abort: battery insufficient.'')"
  by (simp add: verify_battery_level_result leaves_preflight_iff aborted_mission last_mission)

theorem preflight_battery_gate_is_85_witness:
  "sensor_health stubs
   \<and> leaves_preflight (simulate_mission_with stubs 92)
   \<and> leaves_preflight (simulate_mission_with stubs 85)
   \<and> \<not> leaves_preflight (simulate_mission_with stubs 84)"
  using preflight_battery_gate_is_85 [of 92 stubs] preflight_battery_gate_is_85 [of 84 stubs]
  by (simp add: stubs_fields)

text \<open>
  Claim C3, as stated: the mission leaves the pre-flight checks only when the battery is
  at or above the minimum, the sensor health checks pass and the check of no-fly zones
  and permits passes. \<^verbatim>\<open>confirm_no_fly_zones_and_permits\<close> is an action of the pre-flight
  step of \<^verbatim>\<open>AGENT_SPEC\<close>, but \<^verbatim>\<open>simulate_mission\<close> never calls it: the run of the source
  goes on to compute its route with no such check made.
\<close>

theorem preflight_no_fly_zone_check_counterexample:
  "''confirm_no_fly_zones_and_permits'' \<in> set (actions_of ''Pre-flight checks'')
   \<and> leaves_preflight simulate_mission
   \<and> \<not> invoked ''confirm_no_fly_zones_and_permits'' simulate_mission"
  by (simp add: simulate_mission_def leaves_preflight_iff stubs_fields invoked_def
      calls_mission actions_of_def workflow_def)

text \<open>
  Claim C3, amended. The mission leaves the pre-flight checks exactly when the battery is
  at or above 85 and the sensor health check passes; these are the only two gates. When
  the battery check fails the run is the battery check and the line
  \<^verbatim>\<open>Abort: battery insufficient.\<close>; when the sensor health check fails the run is the two
  checks, each made once, and the line \<^verbatim>\<open>Abort: sensor health failed.\<close>. Nothing is
  retried and nothing else is called.
\<close>

theorem preflight_gate_battery_and_sensors:
  "(leaves_preflight (simulate_mission_with r b) \<longleftrightarrow> 85 \<le> b \<and> sensor_health r)
   \<and> (b < 85 \<longrightarrow>
        simulate_mission_with r b =
          [Print ''=== SIMULATING MISSION ==='',
           Call ''verify_battery_level'' [PInt b],
           Print (''Checking battery: '' @ str_int b @ ''% (required >= 85%)''),
           Print ''Abort: battery insufficient.''])
   \<and> (85 \<le> b \<and> \<not> sensor_health r \<longrightarrow>
        simulate_mission_with r b =
          [Print ''=== SIMULATING MISSION ==='',
           Call ''verify_battery_level'' [PInt b],
           Print (''Checking battery: '' @ str_int b @ ''% (required >= 85%)''),
           Call ''run_sensor_health_checks'' [],
           Print ''Running sensor health checks: GPS OK, LiDAR OK, Camera OK, IMU OK, Weather suite OK'',
           Print ''Abort: sensor health failed.''])"
proof (intro conjI impI)
  show "leaves_preflight (simulate_mission_with r b) \<longleftrightarrow> 85 \<le> b \<and> sensor_health r"
    by (rule leaves_preflight_iff)
next
  assume "b < 85"
  then show "simulate_mission_with r b =
          [Print ''=== SIMULATING MISSION ==='',
           Call ''verify_battery_level'' [PInt b],
           Print (''Checking battery: '' @ str_int b @ ''% (required >= 85%)''),
           Print ''Abort: battery insufficient.'']"
    by (rule trace_battery_low)
next
  assume "85 \<le> b \<and> \<not> sensor_health r"
  then show "simulate_mission_with r b =
          [Print ''=== SIMULATING MISSION ==='',
           Call ''verify_battery_level'' [PInt b],
           Print (''Checking battery: '' @ str_int b @ ''% (required >= 85%)''),
           Call ''run_sensor_health_checks'' [],
           Print ''Running sensor health checks: GPS OK, LiDAR OK, Camera OK, IMU OK, Weather suite OK'',
           Print ''Abort: sensor health failed.'']"
    by (simp add: trace_sensor_health_failed)
qed

theorem preflight_gate_battery_and_sensors_witness:
  "(84::int) < 85
   \<and> simulate_mission_with stubs 84 =
        [Print ''=== SIMULATING MISSION ==='',
         Call ''verify_battery_level'' [PInt 84],
         Print ''Checking battery: 84% (required >= 85%)'',
         Print ''Abort: battery insufficient.'']
   \<and> (85::int) \<le> 92 \<and> \<not> sensor_health (stubs\<lparr>sensor_health := False\<rparr>)
   \<and> simulate_mission_with (stubs\<lparr>sensor_health := False\<rparr>) 92 =
        [Print ''=== SIMULATING MISSION ==='',
         Call ''verify_battery_level'' [PInt 92],
         Print ''Checking battery: 92% (required >= 85%)'',
         Call ''run_sensor_health_checks'' [],
         Print ''Running sensor health checks: GPS OK, LiDAR OK, Camera OK, IMU OK, Weather suite OK'',
         Print ''Abort: sensor health failed.'']
   \<and> leaves_preflight (simulate_mission_with stubs 92)"
  using preflight_gate_battery_and_sensors [of stubs 84]
    preflight_gate_battery_and_sensors [of "stubs\<lparr>sensor_health := False\<rparr>" 92]
    preflight_gate_battery_and_sensors [of stubs 92]
  by (simp add: stubs_fields str_int_def dec.simps)

text \<open>
  Claim C8. When the battery check fails (battery below 85), \<^verbatim>\<open>simulate_mission\<close> returns
  at once: whatever the other functions would return, the whole run is the opening line,
  the battery check and the abort line. No route is computed, no take-off, landing or
  release is commanded, nothing is uploaded and no critic review is made.
\<close>

theorem battery_gate_failure_returns_at_once:
  assumes "b < 85"
  shows "simulate_mission_with r b =
           [Print ''=== SIMULATING MISSION ==='',
            Call ''verify_battery_level'' [PInt b],
            Print (''Checking battery: '' @ str_int b @ ''% (required >= 85%)''),
            Print ''Abort: battery insufficient.'']
         \<and> calls (simulate_mission_with r b) = [''verify_battery_level'']
         \<and> \<not> invoked ''compute_optimal_route'' (simulate_mission_with r b)
         \<and> \<not> invoked ''perform_takeoff_sequence'' (simulate_mission_with r b)
         \<and> \<not> invoked ''find_drop_point_and_land'' (simulate_mission_with r b)
         \<and> \<not> invoked ''actuate_servo_release'' (simulate_mission_with r b)
         \<and> \<not> invoked ''post_delivery_upload'' (simulate_mission_with r b)
         \<and> \<not> invoked ''critic_review_and_learning'' (simulate_mission_with r b)"
  using assms by (simp add: trace_battery_low invoked_def)

theorem battery_gate_failure_returns_at_once_witness:
  "(84::int) < 85
   \<and> simulate_mission_with stubs 84 =
        [Print ''=== SIMULATING MISSION ==='',
         Call ''verify_battery_level'' [PInt 84],
         Print ''Checking battery: 84% (required >= 85%)'',
         Print ''Abort: battery insufficient.'']
   \<and> calls (simulate_mission_with stubs 84) = [''verify_battery_level'']"
proof -
  have low: "(84::int) < 85" by simp
  show ?thesis
    using low battery_gate_failure_returns_at_once [OF low, of stubs]
    by (simp add: str_int_def dec.simps)
qed

section \<open>Failures after the pre-flight checks\<close>

lemma warning_printed_iff:
  "Print ''Warning: release failed; marking for manual follow-up.''
       \<in> set (simulate_mission_with r b)
     \<longleftrightarrow> 85 \<le> b \<and> sensor_health r \<and> takeoff r \<and> landing r \<and> \<not> release r"
  by (simp add: simulate_mission_with_def Let_def verify_battery_level_events
      verify_battery_level_result stub_defs)

lemma released_printed_iff:
  "Print ''Package released successfully.'' \<in> set (simulate_mission_with r b)
     \<longleftrightarrow> 85 \<le> b \<and> sensor_health r \<and> takeoff r \<and> landing r \<and> release r"
  by (simp add: simulate_mission_with_def Let_def verify_battery_level_events
      verify_battery_level_result stub_defs)

lemma calls_in_step_order:
  "calls (simulate_mission_with r b) =
     filter (\<lambda>f. invoked f (simulate_mission_with r b)) step_order"
  by (simp add: invoked_def calls_mission step_order_def)

lemma calls_distinct: "distinct (calls (simulate_mission_with r b))"
  by (simp add: calls_mission)

text \<open>
  Claim C4, as stated: a failed action of a safety-critical step (pre-flight, take-off,
  landing) aborts the mission and no further action runs. \<^verbatim>\<open>actuate_servo_release\<close> is
  an action of the landing step of \<^verbatim>\<open>AGENT_SPEC\<close>; when it reports failure (every other
  function as in the source, battery 92) no abort is printed, the telemetry upload and
  the critic review still run, and the mission ends with its completion line.
\<close>

theorem release_failure_counterexample:
  "''actuate_servo_release'' \<in> set (actions_of ''Landing & package delivery'')
   \<and> \<not> release (stubs\<lparr>release := False\<rparr>)
   \<and> \<not> aborted (simulate_mission_with (stubs\<lparr>release := False\<rparr>) 92)
   \<and> calls (simulate_mission_with (stubs\<lparr>release := False\<rparr>) 92) =
        [''verify_battery_level'', ''run_sensor_health_checks'', ''compute_optimal_route'',
         ''perform_takeoff_sequence'', ''sensor_fusion_loop'', ''find_drop_point_and_land'',
         ''actuate_servo_release'', ''post_delivery_upload'', ''critic_review_and_learning'']
   \<and> last (simulate_mission_with (stubs\<lparr>release := False\<rparr>) 92) =
        Print ''=== MISSION COMPLETE ==='' "
  by (simp add: actions_of_def workflow_def aborted_mission calls_mission last_mission
      stubs_fields dict_get_def)

text \<open>
  Claim C4, amended. The functions are called in the fixed order of the text of
  \<^verbatim>\<open>simulate_mission\<close>, each at most once, so nothing is retried. A failed battery check,
  sensor health check, take-off or \<^verbatim>\<open>find_drop_point_and_land\<close> prints its abort line as
  the last line and no later function is called. A failed \<^verbatim>\<open>actuate_servo_release\<close> only
  prints a warning: the upload and the critic review follow and the mission completes.
\<close>

theorem steps_in_order_and_failure_handling:
  assumes tr: "tr = simulate_mission_with r b"
  shows "calls tr = filter (\<lambda>f. invoked f tr) step_order
   \<and> distinct (calls tr)
   \<and> (b < 85 \<longrightarrow>
        last tr = Print ''Abort: battery insufficient.''
        \<and> calls tr = [''verify_battery_level''])
   \<and> (85 \<le> b \<and> \<not> sensor_health r \<longrightarrow>
        last tr = Print ''Abort: sensor health failed.''
        \<and> calls tr = [''verify_battery_level'', ''run_sensor_health_checks''])
   \<and> (85 \<le> b \<and> sensor_health r \<and> \<not> takeoff r \<longrightarrow>
        last tr = Print ''Abort: takeoff failed.''
        \<and> calls tr = [''verify_battery_level'', ''run_sensor_health_checks'',
                      ''compute_optimal_route'', ''perform_takeoff_sequence''])
   \<and> (85 \<le> b \<and> sensor_health r \<and> takeoff r \<and> \<not> landing r \<longrightarrow>
        last tr = Print ''Abort: landing failed.''
        \<and> last (calls tr) = ''find_drop_point_and_land''
        \<and> \<not> invoked ''actuate_servo_release'' tr
        \<and> \<not> invoked ''post_delivery_upload'' tr
        \<and> \<not> invoked ''critic_review_and_learning'' tr)
   \<and> (85 \<le> b \<and> sensor_health r \<and> takeoff r \<and> landing r \<longrightarrow>
        \<not> aborted tr
        \<and> (Print ''Warning: release failed; marking for manual follow-up.'' \<in> set tr
             \<longleftrightarrow> \<not> release r)
        \<and> (Print ''Package released successfully.'' \<in> set tr \<longleftrightarrow> release r)
        \<and> invoked ''actuate_servo_release'' tr
        \<and> invoked ''post_delivery_upload'' tr
        \<and> invoked ''critic_review_and_learning'' tr
        \<and> last tr = Print ''=== MISSION COMPLETE ==='')"
proof (intro conjI)
  show "calls tr = filter (\<lambda>f. invoked f tr) step_order"
    unfolding tr by (rule calls_in_step_order)
  show "distinct (calls tr)"
    unfolding tr by (rule calls_distinct)
  show "b < 85 \<longrightarrow>
        last tr = Print ''Abort: battery insufficient.''
        \<and> calls tr = [''verify_battery_level'']"
    unfolding tr by (simp add: last_mission calls_mission)
  show "85 \<le> b \<and> \<not> sensor_health r \<longrightarrow>
        last tr = Print ''Abort: sensor health failed.''
        \<and> calls tr = [''verify_battery_level'', ''run_sensor_health_checks'']"
    unfolding tr by (simp add: last_mission calls_mission)
  show "85 \<le> b \<and> sensor_health r \<and> \<not> takeoff r \<longrightarrow>
        last tr = Print ''Abort: takeoff failed.''
        \<and> calls tr = [''verify_battery_level'', ''run_sensor_health_checks'',
                      ''compute_optimal_route'', ''perform_takeoff_sequence'']"
    unfolding tr by (simp add: last_mission calls_mission)
  show "85 \<le> b \<and> sensor_health r \<and> takeoff r \<and> \<not> landing r \<longrightarrow>
        last tr = Print ''Abort: landing failed.''
        \<and> last (calls tr) = ''find_drop_point_and_land''
        \<and> \<not> invoked ''actuate_servo_release'' tr
        \<and> \<not> invoked ''post_delivery_upload'' tr
        \<and> \<not> invoked ''critic_review_and_learning'' tr"
    unfolding tr by (simp add: last_mission calls_mission invoked_def)
  show "85 \<le> b \<and> sensor_health r \<and> takeoff r \<and> landing r \<longrightarrow>
        \<not> aborted tr
        \<and> (Print ''Warning: release failed; marking for manual follow-up.'' \<in> set tr
             \<longleftrightarrow> \<not> release r)
        \<and> (Print ''Package released successfully.'' \<in> set tr \<longleftrightarrow> release r)
        \<and> invoked ''actuate_servo_release'' tr
        \<and> invoked ''post_delivery_upload'' tr
        \<and> invoked ''critic_review_and_learning'' tr
        \<and> last tr = Print ''=== MISSION COMPLETE ==='' "
    unfolding tr
    by (simp add: last_mission calls_mission invoked_def aborted_mission
        warning_printed_iff released_printed_iff)
qed

theorem steps_in_order_and_failure_handling_witness:
  "last (simulate_mission_with stubs 84) = Print ''Abort: battery insufficient.''
   \<and> last (simulate_mission_with (stubs\<lparr>sensor_health := False\<rparr>) 92)
        = Print ''Abort: sensor health failed.''
   \<and> last (simulate_mission_with (stubs\<lparr>takeoff := False\<rparr>) 92)
        = Print ''Abort: takeoff failed.''
   \<and> last (simulate_mission_with (stubs\<lparr>landing := False\<rparr>) 92)
        = Print ''Abort: landing failed.''
   \<and> \<not> invoked ''post_delivery_upload'' (simulate_mission_with (stubs\<lparr>landing := False\<rparr>) 92)
   \<and> Print ''Warning: release failed; marking for manual follow-up.''
        \<in> set (simulate_mission_with (stubs\<lparr>release := False\<rparr>) 92)
   \<and> invoked ''post_delivery_upload'' (simulate_mission_with (stubs\<lparr>release := False\<rparr>) 92)
   \<and> last (simulate_mission_with stubs 92) = Print ''=== MISSION COMPLETE ==='' "
  using steps_in_order_and_failure_handling [OF refl, of stubs 84]
    steps_in_order_and_failure_handling [OF refl, of "stubs\<lparr>sensor_health := False\<rparr>" 92]
    steps_in_order_and_failure_handling [OF refl, of "stubs\<lparr>takeoff := False\<rparr>" 92]
    steps_in_order_and_failure_handling [OF refl, of "stubs\<lparr>landing := False\<rparr>" 92]
    steps_in_order_and_failure_handling [OF refl, of "stubs\<lparr>release := False\<rparr>" 92]
    steps_in_order_and_failure_handling [OF refl, of stubs 92]
  by (simp add: stubs_fields)

section \<open>The run of the source\<close>

text \<open>
  Claim C5, as stated: on the nominal input the mission goes through every phase up to
  charging and its log has one entry per phase. \<^verbatim>\<open>AGENT_SPEC\<close> has ten workflow steps;
  the log \<^verbatim>\<open>simulate_mission\<close> uploads has three entries, and no action of the
  return-to-base step or of the charging step is called.
\<close>

theorem nominal_run_log_counterexample:
  "length workflow = 10
   \<and> length (uploaded_logs simulate_mission) = 3
   \<and> \<not> list_ex (\<lambda>a. invoked a simulate_mission)
          (actions_of ''Return-to-base or proceed to next mission'')
   \<and> \<not> list_ex (\<lambda>a. invoked a simulate_mission)
          (actions_of ''Charging, diagnostics & maintenance'')"
  by (simp add: workflow_def actions_of_def invoked_def simulate_mission_def calls_mission
      stubs_fields dict_get_def simulate_mission_with_def Let_def
      verify_battery_level_events verify_battery_level_result stub_defs)

text \<open>
  Claim C5, amended. On the nominal input (battery 92, every function the stub of the
  source, so no obstacle and healthy sensors) \<^verbatim>\<open>simulate_mission\<close> calls, in this order
  and once each, the battery check, the sensor health check, the route computation, the
  take-off, the sensor fusion, the drop-point search and landing, the release, the
  telemetry upload and the critic review, and ends with its completion line. No abort is
  printed. The log it uploads has the three entries \<^verbatim>\<open>route\<close>, \<^verbatim>\<open>battery_end\<close> (72) and
  \<^verbatim>\<open>delivered\<close> (true).
\<close>

theorem nominal_run_completes:
  "calls simulate_mission =
     [''verify_battery_level'', ''run_sensor_health_checks'', ''compute_optimal_route'',
      ''perform_takeoff_sequence'', ''sensor_fusion_loop'', ''find_drop_point_and_land'',
      ''actuate_servo_release'', ''post_delivery_upload'', ''critic_review_and_learning'']
   \<and> last simulate_mission = Print ''=== MISSION COMPLETE ===''
   \<and> \<not> aborted simulate_mission
   \<and> Print ''Package released successfully.'' \<in> set simulate_mission
   \<and> uploaded_logs simulate_mission =
        [(''route'',
            PDict [(''path'', PList [PStr ''DistributionCenterA'', PStr ''waypoint1'',
                                     PStr ''waypoint2'', PStr ''Customer_123_MainSt'']),
                   (''eta_min'', PInt 12)]),
         (''battery_end'', PInt 72),
         (''delivered'', PBool True)]"
proof (intro conjI)
  show "calls simulate_mission =
     [''verify_battery_level'', ''run_sensor_health_checks'', ''compute_optimal_route'',
      ''perform_takeoff_sequence'', ''sensor_fusion_loop'', ''find_drop_point_and_land'',
      ''actuate_servo_release'', ''post_delivery_upload'', ''critic_review_and_learning'']"
    by (simp add: simulate_mission_def calls_mission stubs_fields dict_get_def)
  show "last simulate_mission = Print ''=== MISSION COMPLETE ==='' "
    by (simp add: simulate_mission_def last_mission stubs_fields)
  show "\<not> aborted simulate_mission"
    by (simp add: simulate_mission_def aborted_mission stubs_fields)
  show "Print ''Package released successfully.'' \<in> set simulate_mission"
    by (simp add: simulate_mission_def released_printed_iff stubs_fields)
  show "uploaded_logs simulate_mission =
        [(''route'',
            PDict [(''path'', PList [PStr ''DistributionCenterA'', PStr ''waypoint1'',
                                     PStr ''waypoint2'', PStr ''Customer_123_MainSt'']),
                   (''eta_min'', PInt 12)]),
         (''battery_end'', PInt 72),
         (''delivered'', PBool True)]"
    by (simp add: simulate_mission_def simulate_mission_with_def Let_def stubs_fields
        dict_get_def verify_battery_level_events verify_battery_level_result stub_defs)
qed

text \<open>
  Claim C9. \<^verbatim>\<open>sensor_fusion_loop\<close> returns \<^verbatim>\<open>obstacle_detected = False\<close> on every call, so
  the branch of the en-route step that calls \<^verbatim>\<open>perform_collision_avoidance\<close> is never
  taken: not in the run of the source, and not for any battery level and any results of
  the other functions as long as the sensor fusion is the one of the source.
\<close>

theorem collision_avoidance_never_invoked:
  "dict_get (snd sensor_fusion_loop) ''obstacle_detected'' = PBool False
   \<and> \<not> invoked ''perform_collision_avoidance'' simulate_mission
   \<and> \<not> invoked ''perform_collision_avoidance''
          (simulate_mission_with (r\<lparr>fusion := snd sensor_fusion_loop\<rparr>) b)"
  by (simp add: simulate_mission_def invoked_def calls_mission stubs_fields dict_get_def
      sensor_fusion_loop_def)

section \<open>The sensor fusion stub\<close>

text \<open>
  Claim C7, as stated: the evaluation of the triggers, which in the source is
  \<^verbatim>\<open>sensor_fusion_loop\<close>, is free of side effects. Each call prints a line: run with
  nothing on the console, it leaves the console with one line.
\<close>

theorem sensor_fusion_loop_prints_counterexample:
  "console_output [] = []
   \<and> console_output (fst (run_after [] sensor_fusion_loop)) =
       [Print (''Sensor fusion loop: LiDAR+Camera+GPS+IMU combined ''
               @ [CHR 0xC3, CHR 0xA2, CHR 0xE2, CHR 0x82, CHR 0xAC, CHR 0xE2, CHR 0x80, CHR 0x9D]
               @ '' no immediate hazards detected'')]"
  by (simp add: run_after_def sensor_fusion_loop_def)

text \<open>
  Claim C7, amended. \<^verbatim>\<open>sensor_fusion_loop\<close> takes no snapshot and its result is fixed: run
  after any trace, a first evaluation returns the dictionary with the single entry
  \<^verbatim>\<open>obstacle_detected = False\<close>, and so does a second evaluation run after the first. It is
  not free of side effects: each evaluation adds its one line to the console, so after
  the two evaluations the console holds the line twice more.
\<close>

theorem sensor_fusion_loop_deterministic:
  "snd (run_after tr sensor_fusion_loop) = [(''obstacle_detected'', PBool False)]
   \<and> snd (run_after (fst (run_after tr sensor_fusion_loop)) sensor_fusion_loop)
       = [(''obstacle_detected'', PBool False)]
   \<and> console_output (fst (run_after tr sensor_fusion_loop)) =
       console_output tr
       @ [Print (''Sensor fusion loop: LiDAR+Camera+GPS+IMU combined ''
                 @ [CHR 0xC3, CHR 0xA2, CHR 0xE2, CHR 0x82, CHR 0xAC, CHR 0xE2, CHR 0x80, CHR 0x9D]
                 @ '' no immediate hazards detected'')]
   \<and> console_output (fst (run_after (fst (run_after tr sensor_fusion_loop)) sensor_fusion_loop)) =
       console_output tr
       @ [Print (''Sensor fusion loop: LiDAR+Camera+GPS+IMU combined ''
                 @ [CHR 0xC3, CHR 0xA2, CHR 0xE2, CHR 0x82, CHR 0xAC, CHR 0xE2, CHR 0x80, CHR 0x9D]
                 @ '' no immediate hazards detected''),
          Print (''Sensor fusion loop: LiDAR+Camera+GPS+IMU combined ''
                 @ [CHR 0xC3, CHR 0xA2, CHR 0xE2, CHR 0x82, CHR 0xAC, CHR 0xE2, CHR 0x80, CHR 0x9D]
                 @ '' no immediate hazards detected'')]"
  by (simp add: run_after_def sensor_fusion_loop_def console_output_append)

section \<open>The YAML file\<close>

lemma write_yaml_from_spec_Inr:
  assumes "write_yaml_from_spec spec out_path now w = Inr w'"
  shows "writable w out_path"
    and "files w' = (files w)(out_path \<mapsto> fmt spec 0)"
    and "console w' = console w @ [''['' @ now @ ''] Wrote agent YAML spec to: '' @ out_path]"
  using assms
  by (auto simp: write_yaml_from_spec_def write_text_def Let_def split: if_splits)

lemma write_yaml_from_spec_writable:
  assumes "writable w out_path"
  shows "\<exists>w'. write_yaml_from_spec spec out_path now w = Inr w'"
  using assms by (simp add: write_yaml_from_spec_def write_text_def Let_def)

text \<open>
  Claim C10. The file \<^verbatim>\<open>write_yaml_from_spec\<close> writes is determined by the specification
  alone: two runs on the same specification and path, at any two times and from any two
  states of the files and the console, leave the same text in the file, namely
  \<^verbatim>\<open>fmt(spec)\<close>. The time of the run appears in the console message only. A run whose
  path can be written does return.
\<close>

theorem yaml_file_text_deterministic:
  "(writable w1 out_path \<longrightarrow> (\<exists>w'. write_yaml_from_spec spec out_path now1 w1 = Inr w'))
   \<and> (write_yaml_from_spec spec out_path now1 w1 = Inr w1'
       \<and> write_yaml_from_spec spec out_path now2 w2 = Inr w2'
      \<longrightarrow> files w1' out_path = Some (fmt spec 0)
          \<and> files w2' out_path = files w1' out_path
          \<and> console w1' =
              console w1 @ [''['' @ now1 @ ''] Wrote agent YAML spec to: '' @ out_path]
          \<and> console w2' =
              console w2 @ [''['' @ now2 @ ''] Wrote agent YAML spec to: '' @ out_path])"
proof (intro conjI impI)
  assume "writable w1 out_path"
  then show "\<exists>w'. write_yaml_from_spec spec out_path now1 w1 = Inr w'"
    by (rule write_yaml_from_spec_writable)
next
  assume runs: "write_yaml_from_spec spec out_path now1 w1 = Inr w1'
       \<and> write_yaml_from_spec spec out_path now2 w2 = Inr w2'"
  then have r1: "write_yaml_from_spec spec out_path now1 w1 = Inr w1'"
    and r2: "write_yaml_from_spec spec out_path now2 w2 = Inr w2'"
    by simp_all
  show "files w1' out_path = Some (fmt spec 0)"
    using write_yaml_from_spec_Inr(2) [OF r1] by simp
  show "files w2' out_path = files w1' out_path"
    using write_yaml_from_spec_Inr(2) [OF r1] write_yaml_from_spec_Inr(2) [OF r2] by simp
  show "console w1' =
          console w1 @ [''['' @ now1 @ ''] Wrote agent YAML spec to: '' @ out_path]"
    by (rule write_yaml_from_spec_Inr(3) [OF r1])
  show "console w2' =
          console w2 @ [''['' @ now2 @ ''] Wrote agent YAML spec to: '' @ out_path]"
    by (rule write_yaml_from_spec_Inr(3) [OF r2])
qed

lemma fmt_name_role:
  "fmt (PDict [(''name'', PStr ''Smart Delivery Drone Agent''),
               (''notes'', PList [PStr ''a'', PDict [(''b'', PInt 1)]])]) 0
     = ''name: Smart Delivery Drone Agent'' @ [newline] @ ''notes:'' @ [newline]
       @ ''  - a'' @ [newline] @ ''  -'' @ [newline] @ ''    b: 1''"
  by (simp add: pad_def str_int_def dec.simps)

theorem yaml_file_text_deterministic_witness:
  "writable \<lparr>files = Map.empty, writable = (\<lambda>p. True), console = []\<rparr> ''smart_drone_agent.yaml''
   \<and> write_yaml_from_spec
        (PDict [(''name'', PStr ''Smart Delivery Drone Agent''),
                (''notes'', PList [PStr ''a'', PDict [(''b'', PInt 1)]])])
        ''smart_drone_agent.yaml'' ''2025-01-01T10:00:00''
        \<lparr>files = Map.empty, writable = (\<lambda>p. True), console = []\<rparr>
      = Inr \<lparr>files = [''smart_drone_agent.yaml'' \<mapsto>
                 ''name: Smart Delivery Drone Agent'' @ [newline] @ ''notes:'' @ [newline]
                 @ ''  - a'' @ [newline] @ ''  -'' @ [newline] @ ''    b: 1''],
              writable = (\<lambda>p. True),
              console = [''[2025-01-01T10:00:00] Wrote agent YAML spec to: smart_drone_agent.yaml'']\<rparr>
   \<and> write_yaml_from_spec
        (PDict [(''name'', PStr ''Smart Delivery Drone Agent''),
                (''notes'', PList [PStr ''a'', PDict [(''b'', PInt 1)]])])
        ''smart_drone_agent.yaml'' ''2025-06-30T23:59:59''
        \<lparr>files = [''smart_drone_agent.yaml'' \<mapsto> ''old''], writable = (\<lambda>p. True),
         console = [''earlier'']\<rparr>
      = Inr \<lparr>files = [''smart_drone_agent.yaml'' \<mapsto>
                 ''name: Smart Delivery Drone Agent'' @ [newline] @ ''notes:'' @ [newline]
                 @ ''  - a'' @ [newline] @ ''  -'' @ [newline] @ ''    b: 1''],
              writable = (\<lambda>p. True),
              console = [''earlier'',
                ''[2025-06-30T23:59:59] Wrote agent YAML spec to: smart_drone_agent.yaml'']\<rparr>
   \<and> files \<lparr>files = [''smart_drone_agent.yaml'' \<mapsto>
                 ''name: Smart Delivery Drone Agent'' @ [newline] @ ''notes:'' @ [newline]
                 @ ''  - a'' @ [newline] @ ''  -'' @ [newline] @ ''    b: 1''],
              writable = (\<lambda>p. True),
              console = [''earlier'',
                ''[2025-06-30T23:59:59] Wrote agent YAML spec to: smart_drone_agent.yaml'']\<rparr>
         ''smart_drone_agent.yaml''
      = Some (fmt (PDict [(''name'', PStr ''Smart Delivery Drone Agent''),
                          (''notes'', PList [PStr ''a'', PDict [(''b'', PInt 1)]])]) 0)"
proof -
  let ?spec = "PDict [(''name'', PStr ''Smart Delivery Drone Agent''),
                      (''notes'', PList [PStr ''a'', PDict [(''b'', PInt 1)]])]"
  let ?text = "''name: Smart Delivery Drone Agent'' @ [newline] @ ''notes:'' @ [newline]
                 @ ''  - a'' @ [newline] @ ''  -'' @ [newline] @ ''    b: 1''"
  let ?w1 = "\<lparr>files = Map.empty, writable = (\<lambda>p. True), console = []\<rparr>"
  let ?w2 = "\<lparr>files = [''smart_drone_agent.yaml'' \<mapsto> ''old''], writable = (\<lambda>p. True),
              console = [''earlier'']\<rparr>"
  let ?w1' = "\<lparr>files = [''smart_drone_agent.yaml'' \<mapsto> ?text], writable = (\<lambda>p. True),
       console = [''[2025-01-01T10:00:00] Wrote agent YAML spec to: smart_drone_agent.yaml'']\<rparr>"
  let ?w2' = "\<lparr>files = [''smart_drone_agent.yaml'' \<mapsto> ?text], writable = (\<lambda>p. True),
       console = [''earlier'',
         ''[2025-06-30T23:59:59] Wrote agent YAML spec to: smart_drone_agent.yaml'']\<rparr>"
  have can: "writable ?w1 ''smart_drone_agent.yaml''"
    by simp
  have run1: "write_yaml_from_spec ?spec ''smart_drone_agent.yaml'' ''2025-01-01T10:00:00'' ?w1
                = Inr ?w1'"
    unfolding write_yaml_from_spec_def write_text_def Let_def fmt_name_role by simp
  have run2: "write_yaml_from_spec ?spec ''smart_drone_agent.yaml'' ''2025-06-30T23:59:59'' ?w2
                = Inr ?w2'"
    unfolding write_yaml_from_spec_def write_text_def Let_def fmt_name_role by simp
  have "files ?w2' ''smart_drone_agent.yaml'' = Some (fmt ?spec 0)"
    using yaml_file_text_deterministic
      [where spec = ?spec and out_path = "''smart_drone_agent.yaml''"
         and ?now1.0 = "''2025-01-01T10:00:00''" and ?w1.0 = ?w1 and w1' = ?w1'
         and ?now2.0 = "''2025-06-30T23:59:59''" and ?w2.0 = ?w2 and w2' = ?w2']
      run1 run2
    by simp
  with can run1 run2 show ?thesis
    by simp
qed

end
